theory Spec2Isabelle
  imports Main "HOL-Library.AList" "HOL-Library.Sublist"
begin

section \<open>The POST operation builder of flask-marshmallow-openapi\<close>

text \<open>
  A shallow embedding of \<^verbatim>\<open>flask_marshmallow_openapi/decorators/decorate_post.py\<close>.
  The function \<^verbatim>\<open>post\<close> assembles one OpenAPI operation object and hands it, under
  the key \<^verbatim>\<open>"post"\<close>, to \<^verbatim>\<open>FlaskPathsManager.decorate\<close>. The model returns
  that operation object; an exception raised on the way is a value of type \<open>error\<close>.
\<close>

subsection \<open>Python values\<close>

text \<open>
  Strings are lists of characters. Schema names are Python class names, so lower-casing
  is modelled on the ASCII letters; \<^verbatim>\<open>str.lower\<close> maps no other character to one of
  the letters of \<^verbatim>\<open>deleted\<close> or \<^verbatim>\<open>create\<close>.
\<close>

definition lower_char :: "char \<Rightarrow> char" where
  "lower_char c =
     (case map_of (zip ''ABCDEFGHIJKLMNOPQRSTUVWXYZ'' ''abcdefghijklmnopqrstuvwxyz'') c of
        None \<Rightarrow> c
      | Some l \<Rightarrow> l)"

definition lower :: "string \<Rightarrow> string" where
  "lower s = map lower_char s"

text \<open>\<^verbatim>\<open>sub in s\<close> on strings: \<open>sub\<close> occurs in \<open>s\<close> as a contiguous block.\<close>

fun str_in :: "string \<Rightarrow> string \<Rightarrow> bool" where
  "str_in sub [] = (sub = [])"
| "str_in sub (c # cs) = (prefix sub (c # cs) \<or> str_in sub cs)"

text \<open>Truthiness of a value of type \<^verbatim>\<open>str | None\<close>: neither \<^verbatim>\<open>None\<close> nor empty.\<close>

fun truthy :: "string option \<Rightarrow> bool" where
  "truthy None = False"
| "truthy (Some s) = (s \<noteq> [])"

text \<open>\<^verbatim>\<open>str(n)\<close> on an integer: decimal digits, with a minus sign below zero.\<close>

definition digit_char :: "nat \<Rightarrow> char" where
  "digit_char d = ''0123456789'' ! d"

function str_nat :: "nat \<Rightarrow> string" where
  "str_nat n = (if n < 10 then [digit_char n] else str_nat (n div 10) @ [digit_char (n mod 10)])"
  by pat_completeness auto
termination
  by (relation "measure (\<lambda>n. n)") auto

declare str_nat.simps [simp del]

definition str_int :: "int \<Rightarrow> string" where
  "str_int i = (if i < 0 then CHR ''-'' # str_nat (nat (- i)) else str_nat (nat i))"

subsection \<open>Data model\<close>

text \<open>
  A marshmallow schema class: its class name is its identity, and its options object may
  carry \<^verbatim>\<open>tags\<close> and \<^verbatim>\<open>url_id_field\<close>. \<open>None\<close> stands for an attribute that is
  absent (or, for \<^verbatim>\<open>url_id_field\<close>, \<^verbatim>\<open>None\<close>), which is what the source's
  \<^verbatim>\<open>getattr(schema.opts, ..., default)\<close> distinguishes.
\<close>

record schema =
  cls_name :: string
  opts_tags :: "string list option"
  opts_url_id_field :: "string option"

datatype Locations = Locations_query | Locations_header | Locations_path | Locations_cookie

record ParameterObject =
  name :: "string option"
  in_loc :: "Locations option"
  required :: "bool option"
  allowEmptyValue :: "bool option"

text \<open>
  The field \<open>in_loc\<close> is the attribute \<^verbatim>\<open>in_\<close> of the source, the key \<^verbatim>\<open>in\<close> of
  the document. A caller gives a parameter as a raw mapping (a \<^verbatim>\<open>dict\<close>)
  or as a structured object. A structured object is modelled by its value: the source
  assigns \<^verbatim>\<open>in_\<close> of a structured header in place (line 158), which shows in the
  document only through that header's own entry unless the caller passes one and the same
  object in \<^verbatim>\<open>additional_parameters\<close> and in \<^verbatim>\<open>headers\<close>; the model takes the two
  lists to hold separate objects.
\<close>

datatype pyval = PyNone | PyBool bool | PyStr string

type_synonym raw_mapping = "(string \<times> pyval) list"

datatype param_input = Raw raw_mapping | Structured ParameterObject

datatype error = ValidationError string | IndexError

text \<open>The JSON body of a request or response: \<^verbatim>\<open>{"content": {"application/json": {"schema": {"$ref": r}}}}\<close>.\<close>

datatype body = JsonRef string

record response =
  description :: "string option"
  content :: "body option"

type_synonym SecurityRequirementObject = "(string \<times> string list) list"

text \<open>
  The operation object. \<^verbatim>\<open>responses\<close> is a dictionary: an association list with
  \<open>AList.update\<close>, which overwrites a key in place and appends a new one. \<^verbatim>\<open>tags\<close> is
  written as \<^verbatim>\<open>list(set(...))\<close>, whose order Python does not fix, so the field holds the
  set of its elements.
\<close>

record OperationObject =
  operationId :: "string option"
  summary :: "string option"
  tags :: "string set"
  parameters :: "ParameterObject list"
  requestBody :: "body option"
  responses :: "(string \<times> response) list"
  security :: "SecurityRequirementObject list option"

subsection \<open>Collaborators outside the source file\<close>

text \<open>
  \<^verbatim>\<open>SchemasRegistry.schema_name\<close>, \<^verbatim>\<open>SchemasRegistry.schema_ref\<close>,
  \<^verbatim>\<open>FlaskPathsManager.generate_operation_id\<close> and the constructor
  \<^verbatim>\<open>ParameterObject(**data)\<close> of the library \<^verbatim>\<open>openapi_pydantic_models\<close> are used
  by \<^verbatim>\<open>post\<close> as black boxes. They are parameters of the model: every theorem below
  holds for all of them. So is the default path parameter that the helper
  \<^verbatim>\<open>_initial_docs\<close> puts into the baseline for a schema: \<^verbatim>\<open>post\<close> renames or drops
  it, whatever its name and its other attributes are.
\<close>

record collaborators =
  schema_name :: "schema \<Rightarrow> string"
  schema_ref :: "schema \<Rightarrow> string"
  generate_operation_id :: "string \<Rightarrow> bool \<Rightarrow> schema \<Rightarrow> string"
  parameter_object :: "raw_mapping \<Rightarrow> error + ParameterObject"
  default_path_parameter :: "schema \<Rightarrow> ParameterObject"

text \<open>
  Modelled from the spec: the enumeration \<^verbatim>\<open>Securities\<close> (module \<^verbatim>\<open>securities\<close>) is
  not part of the source at hand. The spec describes a closed set of named values with a
  distinguished no-token sentinel; the source names the members \<^verbatim>\<open>access_token\<close> and
  \<^verbatim>\<open>no_token\<close> and reads a member's \<^verbatim>\<open>name\<close>. \<open>Securities_other n\<close> is any
  further member, named \<open>n\<close>.
\<close>

datatype Securities = Securities_access_token | Securities_no_token | Securities_other string

fun Securities_name :: "Securities \<Rightarrow> string" where
  "Securities_name Securities_access_token = ''access_token''"
| "Securities_name Securities_no_token = ''no_token''"
| "Securities_name (Securities_other n) = n"

text \<open>
  Modelled from the spec: \<^verbatim>\<open>helpers._initial_docs\<close> is not part of the source at hand.
  The spec (4.1): the baseline has one default path parameter, an empty \<^verbatim>\<open>responses\<close>
  map and empty \<^verbatim>\<open>tags\<close>. The default parameter is the collaborators'
  \<open>default_path_parameter\<close> with the location \<^verbatim>\<open>path\<close>: the model fixes neither its
  name (the spec: the schema's \<^verbatim>\<open>url_id_field\<close> or a placeholder) nor its other
  attributes. Without \<^verbatim>\<open>with_id_in_path\<close> there is no default parameter.

  The baseline sets no \<^verbatim>\<open>security\<close>. The spec's sentence in 4.1 that security is
  defaulted to the access-token requirement is read as the default of the builder's
  argument (\<^verbatim>\<open>security = Securities.access_token\<close>, line 26): the builder writes the
  requirement itself for every value but the sentinel (lines 97 and 98, spec 4.2 step 3),
  and spec 8 asks twice that a call with the sentinel has no \<^verbatim>\<open>security\<close> field. A
  baseline that carried a requirement would make the sentinel a value without effect.
\<close>

definition initial_docs :: "collaborators \<Rightarrow> schema \<Rightarrow> bool \<Rightarrow> OperationObject" where
  "initial_docs env sch with_id_in_path =
     \<lparr> operationId = None,
       summary = None,
       tags = {},
       parameters =
         (if with_id_in_path
          then [(default_path_parameter env sch) \<lparr> in_loc := Some Locations_path \<rparr>]
          else []),
       requestBody = None,
       responses = [],
       security = None \<rparr>"

text \<open>
  Modelled from the spec: \<^verbatim>\<open>helpers._update_errors\<close> is not part of the source at hand.
  The spec (4.3): for each entry of the mapping, insert or overwrite
  \<^verbatim>\<open>responses[str(status_code)] = {"description": description}\<close>; no status code is
  rejected. \<^verbatim>\<open>post\<close> passes \<^verbatim>\<open>None\<close> when the caller gives no errors, which
  merges nothing.
\<close>

fun merge_errors :: "(string \<times> response) list \<Rightarrow> (int \<times> string) list \<Rightarrow> (string \<times> response) list" where
  "merge_errors rs [] = rs"
| "merge_errors rs ((code, desc) # es) =
     merge_errors (AList.update (str_int code) \<lparr> description = Some desc, content = None \<rparr> rs) es"

definition update_errors :: "OperationObject \<Rightarrow> (int \<times> string) list option \<Rightarrow> OperationObject" where
  "update_errors open_api_data errors =
     (case errors of
        None \<Rightarrow> open_api_data
      | Some es \<Rightarrow> open_api_data \<lparr> responses := merge_errors (responses open_api_data) es \<rparr>)"

subsection \<open>The builder\<close>

text \<open>Lines 86 to 92: the defaults of \<^verbatim>\<open>response_schema\<close> and \<^verbatim>\<open>operation_id\<close>.\<close>

definition resolve_response_schema :: "schema \<Rightarrow> schema option \<Rightarrow> schema" where
  "resolve_response_schema request_schema response_schema =
     (case response_schema of None \<Rightarrow> request_schema | Some s \<Rightarrow> s)"

definition resolve_operation_id :: "collaborators \<Rightarrow> schema \<Rightarrow> string option \<Rightarrow> string" where
  "resolve_operation_id env response_schema operation_id =
     (case operation_id of
        None \<Rightarrow> generate_operation_id env ''post'' False response_schema
      | Some s \<Rightarrow> if s = [] then generate_operation_id env ''post'' False response_schema else s)"

text \<open>Lines 100 to 112: the success response.\<close>

definition success_responses :: "collaborators \<Rightarrow> schema \<Rightarrow> (string \<times> response) list" where
  "success_responses env response_schema =
     (if str_in ''deleted'' (lower (schema_name env response_schema))
      then AList.update ''204'' \<lparr> description = Some ''Resource was deleted'', content = None \<rparr> []
      else AList.update ''201''
             \<lparr> description = None, content = Some (JsonRef (schema_ref env response_schema)) \<rparr> [])"

text \<open>
  Lines 127 to 137: the path parameter policy. \<^verbatim>\<open>parameters[0]\<close> raises
  \<^verbatim>\<open>IndexError\<close> on an empty list.
\<close>

definition path_parameters :: "collaborators \<Rightarrow> schema \<Rightarrow> ParameterObject list \<Rightarrow> error + ParameterObject list" where
  "path_parameters env request_schema ps =
     (let url_id_field = opts_url_id_field request_schema in
      if truthy url_id_field \<and> \<not> str_in ''create'' (lower (schema_name env request_schema))
      then (case ps of
              [] \<Rightarrow> Inl IndexError
            | p # rest \<Rightarrow> Inr (p \<lparr> name := url_id_field \<rparr> # rest))
      else Inr [])"

text \<open>Lines 139 to 142: the loop over \<^verbatim>\<open>additional_parameters or []\<close>.\<close>

fun coerce :: "collaborators \<Rightarrow> param_input \<Rightarrow> error + ParameterObject" where
  "coerce env (Raw d) = parameter_object env d"
| "coerce env (Structured p) = Inr p"

fun append_parameters :: "collaborators \<Rightarrow> ParameterObject list \<Rightarrow> param_input list \<Rightarrow> error + ParameterObject list" where
  "append_parameters env ps [] = Inr ps"
| "append_parameters env ps (d # ds) =
     (case coerce env d of
        Inl e \<Rightarrow> Inl e
      | Inr p \<Rightarrow> append_parameters env (ps @ [p]) ds)"

text \<open>
  Lines 155 to 159: the loop over \<^verbatim>\<open>headers or []\<close>. For a structured header the
  assignment of line 158 is to the caller's object (see the remark on structured objects
  above). The theorems on parameters below speak of the entries that come from the
  headers, of the baseline's parameter and of the names of the other entries, none of
  which that assignment can change.
\<close>

fun append_headers :: "collaborators \<Rightarrow> ParameterObject list \<Rightarrow> param_input list \<Rightarrow> error + ParameterObject list" where
  "append_headers env ps [] = Inr ps"
| "append_headers env ps (h # hs) =
     (case coerce env h of
        Inl e \<Rightarrow> Inl e
      | Inr p \<Rightarrow> append_headers env (ps @ [p \<lparr> in_loc := Some Locations_header \<rparr>]) hs)"

text \<open>\<^verbatim>\<open>xs or []\<close> on an optional list.\<close>

fun or_empty :: "'a list option \<Rightarrow> 'a list" where
  "or_empty None = []"
| "or_empty (Some xs) = xs"

text \<open>
  Lines 94 to 125: the document before the parameters are touched. The baseline comes
  from \<^verbatim>\<open>_initial_docs(request_schema, with_id_in_path=True)\<close>.
\<close>

definition post_head :: "collaborators \<Rightarrow> schema \<Rightarrow> schema \<Rightarrow> string \<Rightarrow> string option \<Rightarrow> Securities \<Rightarrow> OperationObject" where
  "post_head env request_schema response_schema operation_id summary_arg security_arg =
     (let d0 = initial_docs env request_schema True;
          d1 = d0 \<lparr> operationId := Some operation_id \<rparr>;
          d2 = (if security_arg \<noteq> Securities_no_token
                then d1 \<lparr> security := Some [[(Securities_name security_arg, [])]] \<rparr>
                else d1);
          d3 = d2 \<lparr> responses := success_responses env response_schema \<rparr>;
          d4 = d3 \<lparr> requestBody := Some (JsonRef (schema_ref env request_schema)) \<rparr>
      in if truthy summary_arg then d4 \<lparr> summary := summary_arg \<rparr> else d4)"

text \<open>Lines 144 to 153: the name filter, the tags and the error merge.\<close>

definition post_tail :: "schema \<Rightarrow> schema \<Rightarrow> (int \<times> string) list option \<Rightarrow> OperationObject \<Rightarrow> ParameterObject list \<Rightarrow> OperationObject" where
  "post_tail request_schema response_schema errors d ps =
     update_errors
       (d \<lparr> parameters := filter (\<lambda>p. truthy (name p)) ps,
            tags := set (or_empty (opts_tags request_schema) @ or_empty (opts_tags response_schema)) \<rparr>)
       errors"

text \<open>The whole of \<^verbatim>\<open>post\<close>, in the order of the source.\<close>

definition post :: "collaborators \<Rightarrow> schema \<Rightarrow> schema option \<Rightarrow> string option \<Rightarrow> string option \<Rightarrow>
    (int \<times> string) list option \<Rightarrow> param_input list option \<Rightarrow> Securities \<Rightarrow> param_input list option \<Rightarrow>
    error + OperationObject" where
  "post env request_schema response_schema operation_id summary_arg errors headers security_arg
        additional_parameters =
     (let rs = resolve_response_schema request_schema response_schema;
          oid = resolve_operation_id env rs operation_id;
          d = post_head env request_schema rs oid summary_arg security_arg
      in case path_parameters env request_schema (parameters d) of
           Inl e \<Rightarrow> Inl e
         | Inr ps0 \<Rightarrow>
             (case append_parameters env ps0 (or_empty additional_parameters) of
                Inl e \<Rightarrow> Inl e
              | Inr ps1 \<Rightarrow>
                  (let d' = post_tail request_schema rs errors d ps1
                   in case append_headers env (parameters d') (or_empty headers) of
                        Inl e \<Rightarrow> Inl e
                      | Inr ps2 \<Rightarrow> Inr (d' \<lparr> parameters := ps2 \<rparr>))))"

subsection \<open>Auxiliary definitions for the proofs\<close>

text \<open>Reading a decimal numeral back, to show that \<^verbatim>\<open>str\<close> never merges two codes.\<close>

definition nat_of_str :: "string \<Rightarrow> nat" where
  "nat_of_str s = foldl (\<lambda>a c. 10 * a + (of_char c - 48)) 0 s"

text \<open>
  Both loops coerce their inputs from left to right and stop at the first one that the
  constructor rejects.
\<close>

fun coerce_list :: "collaborators \<Rightarrow> param_input list \<Rightarrow> error + ParameterObject list" where
  "coerce_list env [] = Inr []"
| "coerce_list env (d # ds) =
     (case coerce env d of
        Inl e \<Rightarrow> Inl e
      | Inr p \<Rightarrow> (case coerce_list env ds of Inl e \<Rightarrow> Inl e | Inr ps \<Rightarrow> Inr (p # ps)))"

definition as_header :: "ParameterObject \<Rightarrow> ParameterObject" where
  "as_header p = p \<lparr> in_loc := Some Locations_header \<rparr>"

text \<open>The parameters that the path parameter policy leaves of the baseline.\<close>

definition kept_path_parameters :: "collaborators \<Rightarrow> schema \<Rightarrow> ParameterObject list" where
  "kept_path_parameters env request_schema =
     (if truthy (opts_url_id_field request_schema)
         \<and> \<not> str_in ''create'' (lower (schema_name env request_schema))
      then [(default_path_parameter env request_schema)
              \<lparr> in_loc := Some Locations_path, name := opts_url_id_field request_schema \<rparr>]
      else [])"

subsection \<open>Example inputs\<close>

text \<open>
  The schema of the docstring of \<^verbatim>\<open>post\<close>, variations of it, and stand-ins for the
  collaborators: the registry names a schema by its class name, the constructor reads
  the keys \<^verbatim>\<open>name\<close>, \<^verbatim>\<open>in\<close>, \<^verbatim>\<open>required\<close> and \<^verbatim>\<open>allowEmptyValue\<close>, and the
  default path parameter of every baseline is a required parameter named \<^verbatim>\<open>id\<close>.
\<close>

definition BookSchema :: schema where
  "BookSchema = \<lparr> cls_name = ''BookSchema'', opts_tags = Some [''Books''], opts_url_id_field = Some ''id'' \<rparr>"

definition BookDeletedSchema :: schema where
  "BookDeletedSchema =
     \<lparr> cls_name = ''BookDeletedSchema'', opts_tags = Some [''Books'', ''Trash'', ''Books''],
       opts_url_id_field = None \<rparr>"

definition BookCreateSchema :: schema where
  "BookCreateSchema = \<lparr> cls_name = ''BookCreateSchema'', opts_tags = None, opts_url_id_field = Some ''id'' \<rparr>"

definition BookByIsbnSchema :: schema where
  "BookByIsbnSchema =
     \<lparr> cls_name = ''BookByIsbnSchema'', opts_tags = Some [''Books''], opts_url_id_field = Some ''isbn'' \<rparr>"

definition EmptyIdSchema :: schema where
  "EmptyIdSchema = \<lparr> cls_name = ''BookSchema'', opts_tags = None, opts_url_id_field = Some [] \<rparr>"

fun location_of :: "string \<Rightarrow> Locations option" where
  "location_of s =
     (if s = ''query'' then Some Locations_query
      else if s = ''header'' then Some Locations_header
      else if s = ''path'' then Some Locations_path
      else if s = ''cookie'' then Some Locations_cookie
      else None)"

fun bool_of :: "pyval option \<Rightarrow> bool option" where
  "bool_of (Some (PyBool b)) = Some b"
| "bool_of _ = None"

definition example_parameter_object :: "raw_mapping \<Rightarrow> error + ParameterObject" where
  "example_parameter_object d =
     (case map_of d ''name'' of
        Some (PyStr n) \<Rightarrow>
          (case map_of d ''in'' of
             None \<Rightarrow>
               Inr \<lparr> name = Some n, in_loc = None, required = bool_of (map_of d ''required''),
                     allowEmptyValue = bool_of (map_of d ''allowEmptyValue'') \<rparr>
           | Some (PyStr l) \<Rightarrow>
               (case location_of l of
                  None \<Rightarrow> Inl (ValidationError ''in'')
                | Some loc \<Rightarrow>
                    Inr \<lparr> name = Some n, in_loc = Some loc, required = bool_of (map_of d ''required''),
                          allowEmptyValue = bool_of (map_of d ''allowEmptyValue'') \<rparr>)
           | Some _ \<Rightarrow> Inl (ValidationError ''in''))
      | _ \<Rightarrow> Inl (ValidationError ''name''))"

definition example_env :: collaborators where
  "example_env =
     \<lparr> schema_name = cls_name,
       schema_ref = (\<lambda>s. ''#/components/schemas/'' @ cls_name s),
       generate_operation_id = (\<lambda>verb is_collection s. verb @ ''_'' @ cls_name s),
       parameter_object = example_parameter_object,
       default_path_parameter =
         (\<lambda>s. \<lparr> name = Some ''id'', in_loc = Some Locations_path, required = Some True,
                 allowEmptyValue = None \<rparr>) \<rparr>"

definition zomg :: param_input where
  "zomg = Raw [(''name'', PyStr ''zomg''), (''in'', PyStr ''path''), (''required'', PyBool True),
               (''allowEmptyValue'', PyBool False)]"

definition x_foo :: param_input where
  "x_foo = Raw [(''name'', PyStr ''X-Foo''), (''allowEmptyValue'', PyBool False)]"

definition nameless_header :: param_input where
  "nameless_header =
     Structured \<lparr> name = Some [], in_loc = Some Locations_query, required = None, allowEmptyValue = None \<rparr>"

text \<open>The documents that the example calls below return.\<close>

definition docstring_doc :: OperationObject where
  "docstring_doc =
     \<lparr> operationId = Some ''post_BookSchema'',
       summary = None,
       tags = {''Books''},
       parameters =
         [\<lparr> name = Some ''id'', in_loc = Some Locations_path, required = Some True, allowEmptyValue = None \<rparr>,
          \<lparr> name = Some ''zomg'', in_loc = Some Locations_path, required = Some True,
            allowEmptyValue = Some False \<rparr>,
          \<lparr> name = Some ''X-Foo'', in_loc = Some Locations_header, required = None,
            allowEmptyValue = Some False \<rparr>],
       requestBody = Some (JsonRef ''#/components/schemas/BookSchema''),
       responses =
         [(''201'', \<lparr> description = None, content = Some (JsonRef ''#/components/schemas/BookSchema'') \<rparr>),
          (''409'', \<lparr> description = Some ''title must be unique!'', content = None \<rparr>),
          (''422'', \<lparr> description = Some ''title must be at least 1 character!'', content = None \<rparr>)],
       security = None \<rparr>"

definition deleted_doc :: OperationObject where
  "deleted_doc =
     \<lparr> operationId = Some ''post_BookDeletedSchema'',
       summary = Some ''Delete a book'',
       tags = {''Books'', ''Trash''},
       parameters =
         [\<lparr> name = Some ''id'', in_loc = Some Locations_path, required = Some True, allowEmptyValue = None \<rparr>],
       requestBody = Some (JsonRef ''#/components/schemas/BookSchema''),
       responses = [(''204'', \<lparr> description = Some ''Resource was deleted'', content = None \<rparr>)],
       security = Some [[(''access_token'', [])]] \<rparr>"

definition overwrite_doc :: OperationObject where
  "overwrite_doc =
     \<lparr> operationId = Some ''create_book'',
       summary = None,
       tags = {},
       parameters = [],
       requestBody = Some (JsonRef ''#/components/schemas/BookCreateSchema''),
       responses =
         [(''201'', \<lparr> description = Some ''Queued'', content = None \<rparr>),
          (''-1'', \<lparr> description = Some ''Unknown'', content = None \<rparr>)],
       security = Some [[(''api_key'', [])]] \<rparr>"


definition isbn_doc :: OperationObject where
  "isbn_doc =
     \<lparr> operationId = Some ''post_BookByIsbnSchema'',
       summary = None,
       tags = {''Books''},
       parameters =
         [\<lparr> name = Some ''isbn'', in_loc = Some Locations_path, required = Some True, allowEmptyValue = None \<rparr>,
          \<lparr> name = Some ''zomg'', in_loc = Some Locations_path, required = Some True,
            allowEmptyValue = Some False \<rparr>,
          \<lparr> name = Some ''X-Foo'', in_loc = Some Locations_header, required = None,
            allowEmptyValue = Some False \<rparr>],
       requestBody = Some (JsonRef ''#/components/schemas/BookByIsbnSchema''),
       responses =
         [(''201'', \<lparr> description = None,
                     content = Some (JsonRef ''#/components/schemas/BookByIsbnSchema'') \<rparr>)],
       security = Some [[(''access_token'', [])]] \<rparr>"

definition empty_id_doc :: OperationObject where
  "empty_id_doc =
     \<lparr> operationId = Some ''post_BookSchema'',
       summary = None,
       tags = {},
       parameters = [],
       requestBody = Some (JsonRef ''#/components/schemas/BookSchema''),
       responses =
         [(''201'', \<lparr> description = None, content = Some (JsonRef ''#/components/schemas/BookSchema'') \<rparr>)],
       security = Some [[(''access_token'', [])]] \<rparr>"

definition no_token_doc :: OperationObject where
  "no_token_doc =
     \<lparr> operationId = Some ''post_BookSchema'',
       summary = None,
       tags = {''Books''},
       parameters =
         [\<lparr> name = Some ''id'', in_loc = Some Locations_path, required = Some True, allowEmptyValue = None \<rparr>],
       requestBody = Some (JsonRef ''#/components/schemas/BookSchema''),
       responses =
         [(''201'', \<lparr> description = None, content = Some (JsonRef ''#/components/schemas/BookSchema'') \<rparr>)],
       security = None \<rparr>"


section \<open>Properties\<close>

subsection \<open>\<^verbatim>\<open>str\<close> is injective on the integers\<close>

lemma digit_cases: "d < 10 \<Longrightarrow> d = 0 \<or> d = 1 \<or> d = 2 \<or> d = 3 \<or> d = 4 \<or> d = 5 \<or> d = 6 \<or> d = 7 \<or> d = 8 \<or> d = (9::nat)"
  by arith

lemma of_char_digit: "d < 10 \<Longrightarrow> (of_char (digit_char d) :: nat) = 48 + d"
  using digit_cases[of d] by (auto simp: digit_char_def)

lemma digit_not_minus: "d < 10 \<Longrightarrow> CHR ''-'' \<noteq> digit_char d"
  using digit_cases[of d] by (auto simp: digit_char_def)

lemma nat_of_str_nat: "nat_of_str (str_nat n) = n"
proof (induction n rule: str_nat.induct)
  case (1 n)
  show ?case
  proof (cases "n < 10")
    case True
    then show ?thesis by (simp add: str_nat.simps[of n] nat_of_str_def of_char_digit)
  next
    case False
    with 1 show ?thesis
      by (simp add: str_nat.simps[of n] nat_of_str_def of_char_digit)
  qed
qed

lemma str_nat_inj: "str_nat m = str_nat n \<Longrightarrow> m = n"
  by (metis nat_of_str_nat)

lemma str_nat_no_minus: "CHR ''-'' \<notin> set (str_nat n)"
proof (induction n rule: str_nat.induct)
  case (1 n)
  show ?case
  proof (cases "n < 10")
    case True
    then show ?thesis by (simp add: str_nat.simps[of n] digit_not_minus)
  next
    case False
    with 1 show ?thesis
      by (simp add: str_nat.simps[of n] digit_not_minus)
  qed
qed

lemma str_int_inj: "str_int i = str_int j \<Longrightarrow> i = j"
proof -
  assume eq: "str_int i = str_int j"
  have ne: "\<And>a b. CHR ''-'' # str_nat a \<noteq> str_nat b"
    using str_nat_no_minus by (metis list.set_intros(1))
  show ?thesis
  proof (cases "i < 0"; cases "j < 0")
    assume "i < 0" "j < 0"
    with eq have "nat (- i) = nat (- j)" by (simp add: str_int_def str_nat_inj)
    with \<open>i < 0\<close> \<open>j < 0\<close> show ?thesis by simp
  next
    assume "i < 0" "\<not> j < 0"
    with eq ne show ?thesis by (simp add: str_int_def)
  next
    assume "\<not> i < 0" "j < 0"
    with eq ne[of "nat (- j)" "nat i"] show ?thesis by (simp add: str_int_def)
  next
    assume "\<not> i < 0" "\<not> j < 0"
    with eq have "nat i = nat j" by (simp add: str_int_def str_nat_inj)
    with \<open>\<not> i < 0\<close> \<open>\<not> j < 0\<close> show ?thesis by simp
  qed
qed

subsection \<open>The two loops\<close>

lemma append_parameters_eq:
  "append_parameters env ps ds =
     (case coerce_list env ds of Inl e \<Rightarrow> Inl e | Inr cs \<Rightarrow> Inr (ps @ cs))"
  by (induction ds arbitrary: ps) (auto split: sum.splits)

lemma append_headers_eq:
  "append_headers env ps hs =
     (case coerce_list env hs of Inl e \<Rightarrow> Inl e | Inr cs \<Rightarrow> Inr (ps @ map as_header cs))"
  by (induction hs arbitrary: ps) (auto simp: as_header_def split: sum.splits)

lemma coerce_list_all2:
  "coerce_list env ds = Inr cs \<Longrightarrow> list_all2 (\<lambda>d c. coerce env d = Inr c) ds cs"
  by (induction ds arbitrary: cs) (auto split: sum.splits)

subsection \<open>The document that \<^verbatim>\<open>post\<close> returns\<close>

lemma parameters_post_head:
  "parameters (post_head env rq rs oid sm sec) =
     [(default_path_parameter env rq) \<lparr> in_loc := Some Locations_path \<rparr>]"
  by (simp add: post_head_def initial_docs_def Let_def)

lemma path_parameters_post_head:
  "path_parameters env rq (parameters (post_head env rq rs oid sm sec)) = Inr (kept_path_parameters env rq)"
  by (simp add: parameters_post_head path_parameters_def kept_path_parameters_def Let_def)

lemma post_unfold:
  "post env rq rsp oid sm errs hs sec aps =
     (case coerce_list env (or_empty aps) of
        Inl e \<Rightarrow> Inl e
      | Inr cs \<Rightarrow>
          (case coerce_list env (or_empty hs) of
             Inl e \<Rightarrow> Inl e
           | Inr hcs \<Rightarrow>
               (let rs = resolve_response_schema rq rsp;
                    d = post_tail rq rs errs
                          (post_head env rq rs (resolve_operation_id env rs oid) sm sec)
                          (kept_path_parameters env rq @ cs)
                in Inr (d \<lparr> parameters := parameters d @ map as_header hcs \<rparr>))))"
  by (simp add: post_def Let_def path_parameters_post_head append_parameters_eq append_headers_eq
      split: sum.splits)


lemma post_returns:
  "coerce_list env (or_empty aps) = Inr cs \<Longrightarrow> coerce_list env (or_empty hs) = Inr hcs \<Longrightarrow>
   \<exists>d. post env rq rsp oid sm errs hs sec aps = Inr d"
  by (simp add: post_unfold Let_def)

lemma update_errors_simps:
  "parameters (update_errors d errs) = parameters d"
  "tags (update_errors d errs) = tags d"
  "operationId (update_errors d errs) = operationId d"
  "summary (update_errors d errs) = summary d"
  "requestBody (update_errors d errs) = requestBody d"
  "security (update_errors d errs) = security d"
  "responses (update_errors d errs) = merge_errors (responses d) (or_empty errs)"
  by (cases errs; simp add: update_errors_def)+

lemma post_head_simps:
  "operationId (post_head env rq rs oid sm sec) = Some oid"
  "requestBody (post_head env rq rs oid sm sec) = Some (JsonRef (schema_ref env rq))"
  "responses (post_head env rq rs oid sm sec) = success_responses env rs"
  "security (post_head env rq rs oid sm sec) =
     (if sec \<noteq> Securities_no_token then Some [[(Securities_name sec, [])]]
      else security (initial_docs env rq True))"
  "summary (post_head env rq rs oid sm sec) = (if truthy sm then sm else None)"
  by (simp_all add: post_head_def initial_docs_def Let_def)

lemma post_Inr:
  assumes "post env rq rsp oid sm errs hs sec aps = Inr d"
  obtains cs hcs where
    "coerce_list env (or_empty aps) = Inr cs"
    "coerce_list env (or_empty hs) = Inr hcs"
    "d = (post_tail rq (resolve_response_schema rq rsp) errs
            (post_head env rq (resolve_response_schema rq rsp)
               (resolve_operation_id env (resolve_response_schema rq rsp) oid) sm sec)
            (kept_path_parameters env rq @ cs))
         \<lparr> parameters := filter (\<lambda>p. truthy (name p)) (kept_path_parameters env rq @ cs)
                            @ map as_header hcs \<rparr>"
  using assms
  by (auto simp: post_unfold Let_def post_tail_def update_errors_simps split: sum.splits)

lemma post_operationId:
  "post env rq rsp oid sm errs hs sec aps = Inr d \<Longrightarrow>
   operationId d = Some (resolve_operation_id env (resolve_response_schema rq rsp) oid)"
  by (erule post_Inr) (simp add: post_tail_def update_errors_simps post_head_simps)


lemma post_tags:
  "post env rq rsp oid sm errs hs sec aps = Inr d \<Longrightarrow>
   tags d = set (or_empty (opts_tags rq) @ or_empty (opts_tags (resolve_response_schema rq rsp)))"
  by (erule post_Inr) (simp add: post_tail_def update_errors_simps post_head_simps)

lemma post_responses:
  "post env rq rsp oid sm errs hs sec aps = Inr d \<Longrightarrow>
   responses d = merge_errors (success_responses env (resolve_response_schema rq rsp)) (or_empty errs)"
  by (erule post_Inr) (simp add: post_tail_def update_errors_simps post_head_simps)

lemma post_parameters:
  assumes "post env rq rsp oid sm errs hs sec aps = Inr d"
  obtains cs hcs where
    "coerce_list env (or_empty aps) = Inr cs"
    "coerce_list env (or_empty hs) = Inr hcs"
    "parameters d = filter (\<lambda>p. truthy (name p)) (kept_path_parameters env rq @ cs) @ map as_header hcs"
  using assms by (elim post_Inr) simp

subsection \<open>The error merge\<close>

lemma merge_errors_other:
  "k \<notin> str_int ` fst ` set es \<Longrightarrow> map_of (merge_errors rs es) k = map_of rs k"
  by (induction es arbitrary: rs) (auto simp: update_conv')

lemma merge_errors_entry:
  "distinct (map fst es) \<Longrightarrow> (c, desc) \<in> set es \<Longrightarrow>
   map_of (merge_errors rs es) (str_int c) = Some \<lparr> description = Some desc, content = None \<rparr>"
proof (induction es arbitrary: rs)
  case Nil
  then show ?case by simp
next
  case (Cons e es)
  obtain c' desc' where e: "e = (c', desc')" by (cases e)
  show ?case
  proof (cases "(c, desc) = e")
    case True
    with Cons.prems e have "c \<notin> fst ` set es" by auto
    then have "str_int c \<notin> str_int ` fst ` set es"
      using str_int_inj by blast
    with True e show ?thesis by (simp add: merge_errors_other update_conv')
  next
    case False
    with Cons e show ?thesis by auto
  qed
qed

lemma merge_errors_some:
  "c \<in> fst ` set es \<Longrightarrow>
   \<exists>desc. (c, desc) \<in> set es \<and>
     map_of (merge_errors rs es) (str_int c) = Some \<lparr> description = Some desc, content = None \<rparr>"
proof (induction es arbitrary: rs)
  case Nil
  then show ?case by simp
next
  case (Cons e es)
  obtain c' desc' where e: "e = (c', desc')" by (cases e)
  show ?case
  proof (cases "c \<in> fst ` set es")
    case True
    from Cons.IH[OF True] e show ?thesis by auto
  next
    case False
    with Cons.prems e have c: "c' = c" by auto
    from False have "str_int c \<notin> str_int ` fst ` set es"
      using str_int_inj by blast
    with c e show ?thesis by (auto simp: merge_errors_other update_conv')
  qed
qed

lemma str_int_201: "str_int 201 = ''201''"
  by (simp add: str_int_def str_nat.simps digit_char_def)

lemma str_int_204: "str_int 204 = ''204''"
  by (simp add: str_int_def str_nat.simps digit_char_def)

subsection \<open>The example calls\<close>

lemmas example_defs =
  example_env_def BookSchema_def BookDeletedSchema_def BookCreateSchema_def BookByIsbnSchema_def
  EmptyIdSchema_def
  zomg_def x_foo_def nameless_header_def example_parameter_object_def
  post_tail_def post_head_def initial_docs_def update_errors_def Let_def resolve_response_schema_def
  resolve_operation_id_def kept_path_parameters_def lower_def lower_char_def success_responses_def
  as_header_def str_int_def str_nat.simps digit_char_def

lemma docstring_example:
  "post example_env BookSchema None None None
     (Some [(409, ''title must be unique!''), (422, ''title must be at least 1 character!'')])
     (Some [x_foo]) Securities_no_token (Some [zomg])
   = Inr docstring_doc"
  by (simp add: post_unfold example_defs docstring_doc_def)

lemma deleted_example:
  "post example_env BookSchema (Some BookDeletedSchema) None (Some ''Delete a book'') None None
     Securities_access_token None
   = Inr deleted_doc"
  by (simp add: post_unfold example_defs deleted_doc_def insert_commute)

lemma overwrite_example:
  "post example_env BookCreateSchema None (Some ''create_book'') None
     (Some [(201, ''Queued''), (- 1, ''Unknown'')]) None (Securities_other ''api_key'') None
   = Inr overwrite_doc"
  by (simp add: post_unfold example_defs overwrite_doc_def)


lemma isbn_example:
  "post example_env BookByIsbnSchema None None None None (Some [x_foo]) Securities_access_token
     (Some [zomg])
   = Inr isbn_doc"
  by (simp add: post_unfold example_defs isbn_doc_def)

lemma empty_id_example:
  "post example_env EmptyIdSchema None None None None None Securities_access_token None
   = Inr empty_id_doc"
  by (simp add: post_unfold example_defs empty_id_doc_def)

lemma no_token_example:
  "post example_env BookSchema None (Some []) (Some []) None None Securities_no_token None
   = Inr no_token_doc"
  by (simp add: post_unfold example_defs no_token_doc_def)

section \<open>The claims\<close>

subsection \<open>The request body\<close>

text \<open>
  C8: every document that \<^verbatim>\<open>post\<close> returns has a \<^verbatim>\<open>requestBody\<close> whose
  \<^verbatim>\<open>application/json\<close> schema is the registry's \<^verbatim>\<open>$ref\<close> to the request schema,
  also when the name of the response schema contains \<^verbatim>\<open>deleted\<close> and the success
  response is the 204 one. And \<^verbatim>\<open>post\<close> does return such a document whenever the
  constructor accepts every raw mapping among the additional parameters and the headers.
\<close>
theorem post_requestBody_ref:
  "(post env rq rsp oid sm errs hs sec aps = Inr d \<longrightarrow>
      requestBody d = Some (JsonRef (schema_ref env rq))) \<and>
   (coerce_list env (or_empty aps) = Inr cs \<and> coerce_list env (or_empty hs) = Inr hcs \<longrightarrow>
      (\<exists>d'. post env rq rsp oid sm errs hs sec aps = Inr d' \<and>
            requestBody d' = Some (JsonRef (schema_ref env rq))))"
proof -
  have b: "requestBody x = Some (JsonRef (schema_ref env rq))"
    if "post env rq rsp oid sm errs hs sec aps = Inr x" for x
    using that by (elim post_Inr) (simp add: post_tail_def update_errors_simps post_head_simps)
  show ?thesis
    using b post_returns[of env aps cs hs hcs rq rsp oid sm errs sec] by blast
qed

theorem post_requestBody_ref_witness:
  "post example_env BookSchema (Some BookDeletedSchema) None (Some ''Delete a book'') None None
     Securities_access_token None = Inr deleted_doc \<and>
   str_in ''deleted'' (lower (schema_name example_env BookDeletedSchema)) \<and>
   requestBody deleted_doc = Some (JsonRef ''#/components/schemas/BookSchema'')"
  using post_requestBody_ref [where env = example_env and rq = BookSchema and rsp = "Some BookDeletedSchema"
      and oid = None and sm = "Some ''Delete a book''" and errs = None and hs = None
      and sec = Securities_access_token and aps = None and d = deleted_doc]
    deleted_example
  by (simp add: example_env_def BookSchema_def BookDeletedSchema_def lower_def lower_char_def)

subsection \<open>The default of the response schema\<close>

text \<open>
  C7: without a \<^verbatim>\<open>response_schema\<close> the builder uses the request schema wherever it
  consults the response schema: the call returns what the call with the request schema
  given as response schema returns, so the success response, the generated operation id
  and the tags are those of the request schema.
\<close>
theorem post_default_response_schema:
  "post env rq None oid sm errs hs sec aps = post env rq (Some rq) oid sm errs hs sec aps \<and>
   (post env rq None oid sm errs hs sec aps = Inr d \<longrightarrow>
      responses d = merge_errors (success_responses env rq) (or_empty errs) \<and>
      operationId d = Some (resolve_operation_id env rq oid) \<and>
      tags d = set (or_empty (opts_tags rq)))"
proof -
  have "post env rq None oid sm errs hs sec aps = post env rq (Some rq) oid sm errs hs sec aps"
    by (simp add: post_def resolve_response_schema_def)
  moreover have "responses d = merge_errors (success_responses env rq) (or_empty errs)"
    "operationId d = Some (resolve_operation_id env rq oid)"
    "tags d = set (or_empty (opts_tags rq))"
    if "post env rq None oid sm errs hs sec aps = Inr d"
    using post_responses[OF that] post_operationId[OF that] post_tags[OF that]
    by (simp_all add: resolve_response_schema_def)
  ultimately show ?thesis by blast
qed

theorem post_default_response_schema_witness:
  "post example_env BookSchema None (Some []) (Some []) None None Securities_no_token None
     = Inr no_token_doc \<and>
   post example_env BookSchema (Some BookSchema) (Some []) (Some []) None None Securities_no_token None
     = Inr no_token_doc \<and>
   responses no_token_doc = merge_errors (success_responses example_env BookSchema) [] \<and>
   operationId no_token_doc = Some (resolve_operation_id example_env BookSchema (Some [])) \<and>
   tags no_token_doc = {''Books''}"
  using post_default_response_schema [where env = example_env and rq = BookSchema and oid = "Some []"
      and sm = "Some []" and errs = None and hs = None and sec = Securities_no_token and aps = None
      and d = no_token_doc]
    no_token_example
  by (simp add: BookSchema_def)

subsection \<open>Defaults are decided by truthiness\<close>

text \<open>
  C10: an \<^verbatim>\<open>operation_id\<close> that is the empty string is treated as an omitted one
  and replaced by the generated id, a non-empty one is kept, and a falsy
  \<^verbatim>\<open>response_schema\<close> is replaced by the request schema. A schema class is never
  falsy, so \<^verbatim>\<open>None\<close> is the only falsy value of that argument.
\<close>
theorem post_defaults_by_truthiness:
  "post env rq rsp (Some []) sm errs hs sec aps = post env rq rsp None sm errs hs sec aps \<and>
   resolve_response_schema rq None = rq \<and>
   (post env rq rsp oid sm errs hs sec aps = Inr d \<longrightarrow>
      (\<not> truthy oid \<longrightarrow>
         operationId d = Some (generate_operation_id env ''post'' False (resolve_response_schema rq rsp))) \<and>
      (truthy oid \<longrightarrow> operationId d = oid))"
proof -
  have "post env rq rsp (Some []) sm errs hs sec aps = post env rq rsp None sm errs hs sec aps"
    by (simp add: post_def resolve_operation_id_def)
  moreover have "resolve_response_schema rq None = rq"
    by (simp add: resolve_response_schema_def)
  moreover have "operationId d = Some (generate_operation_id env ''post'' False (resolve_response_schema rq rsp))"
    if "post env rq rsp oid sm errs hs sec aps = Inr d" "\<not> truthy oid"
    using post_operationId[OF that(1)] that(2)
    by (cases oid) (simp_all add: resolve_operation_id_def)
  moreover have "operationId d = oid"
    if "post env rq rsp oid sm errs hs sec aps = Inr d" "truthy oid"
    using post_operationId[OF that(1)] that(2)
    by (cases oid) (simp_all add: resolve_operation_id_def)
  ultimately show ?thesis by blast
qed

theorem post_defaults_by_truthiness_witness:
  "post example_env BookSchema None (Some []) (Some []) None None Securities_no_token None
     = Inr no_token_doc \<and>
   post example_env BookSchema None None (Some []) None None Securities_no_token None
     = Inr no_token_doc \<and>
   \<not> truthy (Some []) \<and>
   operationId no_token_doc = Some (generate_operation_id example_env ''post'' False BookSchema)"
  using post_defaults_by_truthiness [where env = example_env and rq = BookSchema and rsp = None
      and oid = "Some []" and sm = "Some []" and errs = None and hs = None
      and sec = Securities_no_token and aps = None and d = no_token_doc]
    no_token_example
  by (simp add: resolve_response_schema_def)

subsection \<open>Tags\<close>

text \<open>
  C9: the tags of the document are, as a set, the union of the tags that the request
  schema declares and the tags that the response schema declares. Two calls whose schemas
  declare the same sets of tags, in whatever order and with whatever repetitions, give the
  same tags, and a schema without a \<^verbatim>\<open>tags\<close> option contributes nothing.
\<close>
theorem post_tags_union:
  "(post env rq rsp oid sm errs hs sec aps = Inr d \<longrightarrow>
      tags d = set (or_empty (opts_tags rq))
                \<union> set (or_empty (opts_tags (resolve_response_schema rq rsp)))) \<and>
   (post env rq rsp oid sm errs hs sec aps = Inr d \<and>
    post env' rq' rsp' oid' sm' errs' hs' sec' aps' = Inr d' \<and>
    set (or_empty (opts_tags rq')) = set (or_empty (opts_tags rq)) \<and>
    set (or_empty (opts_tags (resolve_response_schema rq' rsp')))
      = set (or_empty (opts_tags (resolve_response_schema rq rsp))) \<longrightarrow>
      tags d' = tags d) \<and>
   (post env rq rsp oid sm errs hs sec aps = Inr d \<and> opts_tags rq = None \<longrightarrow>
      tags d = set (or_empty (opts_tags (resolve_response_schema rq rsp)))) \<and>
   (post env rq rsp oid sm errs hs sec aps = Inr d \<and>
    opts_tags (resolve_response_schema rq rsp) = None \<longrightarrow>
      tags d = set (or_empty (opts_tags rq)))"
proof -
  have u: "tags x = set (or_empty (opts_tags a)) \<union> set (or_empty (opts_tags (resolve_response_schema a b)))"
    if "post e a b c f g h i j = Inr x" for e a b c f g h i j x
    using post_tags[OF that] by simp
  show ?thesis
    using u[of env rq rsp oid sm errs hs sec aps d]
      u[of env' rq' rsp' oid' sm' errs' hs' sec' aps' d']
    by auto
qed

theorem post_tags_union_witness:
  "post example_env BookSchema (Some BookDeletedSchema) None (Some ''Delete a book'') None None
     Securities_access_token None = Inr deleted_doc \<and>
   opts_tags BookSchema = Some [''Books''] \<and>
   opts_tags BookDeletedSchema = Some [''Books'', ''Trash'', ''Books''] \<and>
   tags deleted_doc = {''Books'', ''Trash''}"
  using post_tags_union [where env = example_env and rq = BookSchema and rsp = "Some BookDeletedSchema"
      and oid = None and sm = "Some ''Delete a book''" and errs = None and hs = None
      and sec = Securities_access_token and aps = None and d = deleted_doc]
    deleted_example
  by (simp add: BookSchema_def BookDeletedSchema_def resolve_response_schema_def insert_commute)

subsection \<open>Security\<close>



subsection \<open>Headers\<close>

text \<open>
  C6: the parameters of the document end with one entry for each of \<^verbatim>\<open>headers\<close>, in
  order; each is the caller's parameter (coerced, if it was a raw mapping) with its
  location replaced by \<^verbatim>\<open>header\<close>, whatever location the caller gave.
\<close>
theorem post_headers_location:
  "post env rq rsp oid sm errs hs sec aps = Inr d \<longrightarrow>
     (\<exists>pre hps.
        parameters d = pre @ hps \<and>
        list_all2 (\<lambda>h p. \<exists>c. coerce env h = Inr c \<and> p = c \<lparr> in_loc := Some Locations_header \<rparr>)
          (or_empty hs) hps \<and>
        (\<forall>p \<in> set hps. in_loc p = Some Locations_header))"
proof
  assume a: "post env rq rsp oid sm errs hs sec aps = Inr d"
  from a obtain cs hcs where
    h: "coerce_list env (or_empty hs) = Inr hcs"
    and p: "parameters d = filter (\<lambda>p. truthy (name p)) (kept_path_parameters env rq @ cs) @ map as_header hcs"
    by (rule post_parameters)
  have "list_all2 (\<lambda>h c. coerce env h = Inr c) (or_empty hs) hcs"
    using h by (rule coerce_list_all2)
  then have "list_all2 (\<lambda>h p. \<exists>c. coerce env h = Inr c \<and> p = c \<lparr> in_loc := Some Locations_header \<rparr>)
      (or_empty hs) (map as_header hcs)"
    by (auto simp: list_all2_map2 as_header_def elim!: list_all2_mono)
  moreover have "\<forall>p \<in> set (map as_header hcs). in_loc p = Some Locations_header"
    by (simp add: as_header_def)
  ultimately show "\<exists>pre hps.
        parameters d = pre @ hps \<and>
        list_all2 (\<lambda>h p. \<exists>c. coerce env h = Inr c \<and> p = c \<lparr> in_loc := Some Locations_header \<rparr>)
          (or_empty hs) hps \<and>
        (\<forall>p \<in> set hps. in_loc p = Some Locations_header)"
    using p by blast
qed


theorem post_headers_location_witness:
  "post example_env BookSchema None None None
     (Some [(409, ''title must be unique!''), (422, ''title must be at least 1 character!'')])
     (Some [x_foo]) Securities_no_token (Some [zomg]) = Inr docstring_doc \<and>
   (\<exists>pre hps.
        parameters docstring_doc = pre @ hps \<and>
        list_all2 (\<lambda>h p. \<exists>c. coerce example_env h = Inr c \<and> p = c \<lparr> in_loc := Some Locations_header \<rparr>)
          [x_foo] hps \<and>
        (\<forall>p \<in> set hps. in_loc p = Some Locations_header))"
  using post_headers_location [where env = example_env and rq = BookSchema and rsp = None
      and oid = None and sm = None
      and errs = "Some [(409, ''title must be unique!''), (422, ''title must be at least 1 character!'')]"
      and hs = "Some [x_foo]" and sec = Securities_no_token and aps = "Some [zomg]"
      and d = docstring_doc]
    docstring_example
  by simp

subsection \<open>The name filter\<close>




subsection \<open>Errors\<close>

text \<open>
  C4: for an \<^verbatim>\<open>errors\<close> mapping (a dictionary, so its codes are distinct) every entry
  \<open>(code, desc)\<close> ends up in the document as
  \<^verbatim>\<open>responses[str(code)] = {"description": desc}\<close>, whether the key is new or already
  holds the success response; every other key keeps the success response. Any integer
  is a code: no call fails on account of one.
\<close>
theorem post_errors_merged:
  "post env rq rsp oid sm (Some es) hs sec aps = Inr d \<and> distinct (map fst es) \<longrightarrow>
     (\<forall>(code, desc) \<in> set es.
        map_of (responses d) (str_int code) = Some \<lparr> description = Some desc, content = None \<rparr>) \<and>
     (\<forall>k. k \<notin> str_int ` fst ` set es \<longrightarrow>
        map_of (responses d) k = map_of (success_responses env (resolve_response_schema rq rsp)) k)"
proof
  assume a: "post env rq rsp oid sm (Some es) hs sec aps = Inr d \<and> distinct (map fst es)"
  then have r: "responses d = merge_errors (success_responses env (resolve_response_schema rq rsp)) es"
    using post_responses[of env rq rsp oid sm "Some es" hs sec aps d] by simp
  from a have dist: "distinct (map fst es)" by simp
  show "(\<forall>(code, desc) \<in> set es.
        map_of (responses d) (str_int code) = Some \<lparr> description = Some desc, content = None \<rparr>) \<and>
     (\<forall>k. k \<notin> str_int ` fst ` set es \<longrightarrow>
        map_of (responses d) k = map_of (success_responses env (resolve_response_schema rq rsp)) k)"
    using merge_errors_entry[OF dist] merge_errors_other unfolding r by blast
qed

theorem post_errors_merged_witness:
  "post example_env BookCreateSchema None (Some ''create_book'') None
     (Some [(201, ''Queued''), (- 1, ''Unknown'')]) None (Securities_other ''api_key'') None
     = Inr overwrite_doc \<and>
   distinct (map fst [(201::int, ''Queued''), (- 1, ''Unknown'')]) \<and>
   map_of (responses overwrite_doc) (str_int 201) = Some \<lparr> description = Some ''Queued'', content = None \<rparr> \<and>
   map_of (responses overwrite_doc) (str_int (- 1)) = Some \<lparr> description = Some ''Unknown'', content = None \<rparr>"
  using post_errors_merged [where env = example_env and rq = BookCreateSchema and rsp = None
      and oid = "Some ''create_book''" and sm = None and es = "[(201, ''Queued''), (- 1, ''Unknown'')]"
      and hs = None and sec = "Securities_other ''api_key''" and aps = None and d = overwrite_doc]
    overwrite_example
  by simp

subsection \<open>The success response\<close>

text \<open>
  C1, as the code has it: the errors are merged after the success response is written, so
  an \<^verbatim>\<open>errors\<close> entry for the same code replaces it. If the registry's name of the
  response schema contains \<^verbatim>\<open>deleted\<close> in any case, \<^verbatim>\<open>responses\<close> has the key
  \<^verbatim>\<open>204\<close> with a description and no body (the description
  \<^verbatim>\<open>Resource was deleted\<close> unless \<^verbatim>\<open>errors\<close> has the code 204), and no key
  \<^verbatim>\<open>201\<close> unless \<^verbatim>\<open>errors\<close> has it. Otherwise \<^verbatim>\<open>responses\<close> has the key
  \<^verbatim>\<open>201\<close>: with the \<^verbatim>\<open>$ref\<close> to the response schema as its JSON body when
  \<^verbatim>\<open>errors\<close> has no code 201, with the caller's description and no body when it has;
  and no key \<^verbatim>\<open>204\<close> unless \<^verbatim>\<open>errors\<close> has it.
\<close>
theorem post_success_response:
  "post env rq rsp oid sm errs hs sec aps = Inr d \<longrightarrow>
     (if str_in ''deleted'' (lower (schema_name env (resolve_response_schema rq rsp)))
      then (\<exists>desc. map_of (responses d) ''204'' = Some \<lparr> description = Some desc, content = None \<rparr>) \<and>
           (204 \<notin> fst ` set (or_empty errs) \<longrightarrow>
              map_of (responses d) ''204''
                = Some \<lparr> description = Some ''Resource was deleted'', content = None \<rparr>) \<and>
           (201 \<notin> fst ` set (or_empty errs) \<longrightarrow> map_of (responses d) ''201'' = None)
      else (201 \<notin> fst ` set (or_empty errs) \<longrightarrow>
              map_of (responses d) ''201''
                = Some \<lparr> description = None,
                         content = Some (JsonRef (schema_ref env (resolve_response_schema rq rsp))) \<rparr>) \<and>
           (201 \<in> fst ` set (or_empty errs) \<longrightarrow>
              (\<exists>desc. map_of (responses d) ''201'' = Some \<lparr> description = Some desc, content = None \<rparr>)) \<and>
           (204 \<notin> fst ` set (or_empty errs) \<longrightarrow> map_of (responses d) ''204'' = None))"
proof
  let ?rs = "resolve_response_schema rq rsp"
  let ?es = "or_empty errs"
  assume a: "post env rq rsp oid sm errs hs sec aps = Inr d"
  have r: "responses d = merge_errors (success_responses env ?rs) ?es"
    using a by (rule post_responses)
  have k201: "''201'' \<notin> str_int ` fst ` set ?es" if "201 \<notin> fst ` set ?es"
    using that str_int_inj str_int_201 by (metis imageE)
  have k204: "''204'' \<notin> str_int ` fst ` set ?es" if "204 \<notin> fst ` set ?es"
    using that str_int_inj str_int_204 by (metis imageE)
  have o201: "map_of (responses d) ''201'' = map_of (success_responses env ?rs) ''201''"
    if "201 \<notin> fst ` set ?es"
    unfolding r using merge_errors_other[OF k201[OF that]] .
  have o204: "map_of (responses d) ''204'' = map_of (success_responses env ?rs) ''204''"
    if "204 \<notin> fst ` set ?es"
    unfolding r using merge_errors_other[OF k204[OF that]] .
  have i201: "\<exists>desc. map_of (responses d) ''201'' = Some \<lparr> description = Some desc, content = None \<rparr>"
    if "201 \<in> fst ` set ?es"
    unfolding r using merge_errors_some[OF that, of "success_responses env ?rs"] str_int_201 by auto
  have i204: "\<exists>desc. map_of (responses d) ''204'' = Some \<lparr> description = Some desc, content = None \<rparr>"
    if "204 \<in> fst ` set ?es"
    unfolding r using merge_errors_some[OF that, of "success_responses env ?rs"] str_int_204 by auto
  show "if str_in ''deleted'' (lower (schema_name env ?rs))
      then (\<exists>desc. map_of (responses d) ''204'' = Some \<lparr> description = Some desc, content = None \<rparr>) \<and>
           (204 \<notin> fst ` set ?es \<longrightarrow>
              map_of (responses d) ''204''
                = Some \<lparr> description = Some ''Resource was deleted'', content = None \<rparr>) \<and>
           (201 \<notin> fst ` set ?es \<longrightarrow> map_of (responses d) ''201'' = None)
      else (201 \<notin> fst ` set ?es \<longrightarrow>
              map_of (responses d) ''201''
                = Some \<lparr> description = None, content = Some (JsonRef (schema_ref env ?rs)) \<rparr>) \<and>
           (201 \<in> fst ` set ?es \<longrightarrow>
              (\<exists>desc. map_of (responses d) ''201'' = Some \<lparr> description = Some desc, content = None \<rparr>)) \<and>
           (204 \<notin> fst ` set ?es \<longrightarrow> map_of (responses d) ''204'' = None)"
  proof (cases "str_in ''deleted'' (lower (schema_name env ?rs))")
    case True
    then have s: "success_responses env ?rs
        = [(''204'', \<lparr> description = Some ''Resource was deleted'', content = None \<rparr>)]"
      by (simp add: success_responses_def)
    show ?thesis
      using True i204 o204 o201 by (cases "204 \<in> fst ` set ?es") (simp_all add: s)
  next
    case False
    then have s: "success_responses env ?rs
        = [(''201'', \<lparr> description = None, content = Some (JsonRef (schema_ref env ?rs)) \<rparr>)]"
      by (simp add: success_responses_def)
    show ?thesis
      using False i201 o204 o201 by (simp add: s)
  qed
qed


theorem post_success_response_witness:
  "post example_env BookSchema (Some BookDeletedSchema) None (Some ''Delete a book'') None None
     Securities_access_token None = Inr deleted_doc \<and>
   str_in ''deleted'' (lower (schema_name example_env BookDeletedSchema)) \<and>
   map_of (responses deleted_doc) ''204''
     = Some \<lparr> description = Some ''Resource was deleted'', content = None \<rparr> \<and>
   map_of (responses deleted_doc) ''201'' = None"
  using post_success_response [where env = example_env and rq = BookSchema and rsp = "Some BookDeletedSchema"
      and oid = None and sm = "Some ''Delete a book''" and errs = None and hs = None
      and sec = Securities_access_token and aps = None and d = deleted_doc]
    deleted_example
  by (simp add: resolve_response_schema_def example_env_def BookDeletedSchema_def lower_def lower_char_def)

text \<open>
  An \<^verbatim>\<open>errors\<close> entry for the code 201 leaves the key \<^verbatim>\<open>201\<close> without the
  \<^verbatim>\<open>$ref\<close> body.
\<close>
theorem overwritten_success_counterexample:
  "post example_env BookCreateSchema None (Some ''create_book'') None
     (Some [(201, ''Queued''), (- 1, ''Unknown'')]) None (Securities_other ''api_key'') None
     = Inr overwrite_doc \<and>
   \<not> str_in ''deleted'' (lower (schema_name example_env BookCreateSchema)) \<and>
   map_of (responses overwrite_doc) ''201'' = Some \<lparr> description = Some ''Queued'', content = None \<rparr> \<and>
   map_of (responses overwrite_doc) ''201''
     \<noteq> Some \<lparr> description = None, content = Some (JsonRef (schema_ref example_env BookCreateSchema)) \<rparr>"
  using overwrite_example
  by (simp add: overwrite_doc_def example_env_def BookCreateSchema_def lower_def lower_char_def)

subsection \<open>The path parameter\<close>

text \<open>
  C5: if the request schema declares a \<^verbatim>\<open>url_id_field\<close> and the registry's name of the
  request schema does not contain \<^verbatim>\<open>create\<close> in any case, the default path parameter
  of the baseline is renamed to that field; in every other case (no \<^verbatim>\<open>url_id_field\<close>,
  or a name with \<^verbatim>\<open>create\<close>) the parameters of the baseline are dropped. This happens
  before the additional parameters are appended.

  The first two parts are about lines 127 to 137 on any list of parameters: the first
  parameter, whatever its name was, gets the name of the field and the rest stays, or the
  list is emptied. The third part is about the document: in front of the entries of the
  additional parameters and of the headers its parameters are the baseline's default
  parameter under its new name, or nothing. A schema that declares the empty string as
  its field takes the emptying branch at once instead of being renamed and then removed
  by the name filter, which gives the same document, so the third part holds with
  a declared field read as one that is not \<^verbatim>\<open>None\<close>.
\<close>
theorem post_path_parameter:
  "(truthy (opts_url_id_field rq) \<and> \<not> str_in ''create'' (lower (schema_name env rq)) \<longrightarrow>
      path_parameters env rq (p # ps) = Inr (p \<lparr> name := opts_url_id_field rq \<rparr> # ps)) \<and>
   (opts_url_id_field rq = None \<or> str_in ''create'' (lower (schema_name env rq)) \<longrightarrow>
      path_parameters env rq ps = Inr []) \<and>
   (post env rq rsp oid sm errs hs sec aps = Inr d \<longrightarrow>
      (\<exists>p0 cs hcs rest.
         parameters (initial_docs env rq True) = [p0] \<and>
         coerce_list env (or_empty aps) = Inr cs \<and>
         coerce_list env (or_empty hs) = Inr hcs \<and>
         parameters d =
           filter (\<lambda>p. truthy (name p))
             (if opts_url_id_field rq \<noteq> None \<and> \<not> str_in ''create'' (lower (schema_name env rq))
              then [p0 \<lparr> name := opts_url_id_field rq \<rparr>] else [])
           @ rest \<and>
         map name rest = filter truthy (map name cs) @ map name hcs))"
proof -
  let ?create = "str_in ''create'' (lower (schema_name env rq))"
  let ?p0 = "(default_path_parameter env rq) \<lparr> in_loc := Some Locations_path \<rparr>"
  have a: "path_parameters env rq (p # ps) = Inr (p \<lparr> name := opts_url_id_field rq \<rparr> # ps)"
    if "truthy (opts_url_id_field rq) \<and> \<not> ?create"
    using that by (simp add: path_parameters_def Let_def)
  have b: "path_parameters env rq ps = Inr []" if "opts_url_id_field rq = None \<or> ?create"
    using that by (auto simp: path_parameters_def Let_def)
  have c: "\<exists>p0 cs hcs rest.
         parameters (initial_docs env rq True) = [p0] \<and>
         coerce_list env (or_empty aps) = Inr cs \<and>
         coerce_list env (or_empty hs) = Inr hcs \<and>
         parameters d =
           filter (\<lambda>p. truthy (name p))
             (if opts_url_id_field rq \<noteq> None \<and> \<not> ?create
              then [p0 \<lparr> name := opts_url_id_field rq \<rparr>] else [])
           @ rest \<and>
         map name rest = filter truthy (map name cs) @ map name hcs"
    if r: "post env rq rsp oid sm errs hs sec aps = Inr d"
  proof -
    from r obtain cs hcs where
      cs: "coerce_list env (or_empty aps) = Inr cs"
      and hcs: "coerce_list env (or_empty hs) = Inr hcs"
      and ps: "parameters d
          = filter (\<lambda>p. truthy (name p)) (kept_path_parameters env rq @ cs) @ map as_header hcs"
      by (rule post_parameters)
    let ?rest = "filter (\<lambda>p. truthy (name p)) cs @ map as_header hcs"
    have k: "filter (\<lambda>p. truthy (name p)) (kept_path_parameters env rq)
        = filter (\<lambda>p. truthy (name p))
            (if opts_url_id_field rq \<noteq> None \<and> \<not> ?create
             then [?p0 \<lparr> name := opts_url_id_field rq \<rparr>] else [])"
      by (cases "opts_url_id_field rq") (auto simp: kept_path_parameters_def)
    have "parameters (initial_docs env rq True) = [?p0]"
      by (simp add: initial_docs_def)
    moreover have "parameters d =
           filter (\<lambda>p. truthy (name p))
             (if opts_url_id_field rq \<noteq> None \<and> \<not> ?create
              then [?p0 \<lparr> name := opts_url_id_field rq \<rparr>] else [])
           @ ?rest"
      using ps k by simp
    moreover have "map name ?rest = filter truthy (map name cs) @ map name hcs"
      by (simp add: filter_map comp_def as_header_def)
    ultimately show ?thesis using cs hcs by blast
  qed
  from a b c show ?thesis by blast
qed

theorem post_path_parameter_witness:
  "post example_env BookByIsbnSchema None None None None (Some [x_foo]) Securities_access_token
     (Some [zomg]) = Inr isbn_doc \<and>
   opts_url_id_field BookByIsbnSchema = Some ''isbn'' \<and>
   \<not> str_in ''create'' (lower (schema_name example_env BookByIsbnSchema)) \<and>
   parameters (initial_docs example_env BookByIsbnSchema True)
     = [\<lparr> name = Some ''id'', in_loc = Some Locations_path, required = Some True, allowEmptyValue = None \<rparr>] \<and>
   path_parameters example_env BookByIsbnSchema (parameters (initial_docs example_env BookByIsbnSchema True))
     = Inr [\<lparr> name = Some ''isbn'', in_loc = Some Locations_path, required = Some True,
               allowEmptyValue = None \<rparr>] \<and>
   map name (parameters isbn_doc) = [Some ''isbn'', Some ''zomg'', Some ''X-Foo''] \<and>
   str_in ''create'' (lower (schema_name example_env BookCreateSchema)) \<and>
   path_parameters example_env BookCreateSchema (parameters (initial_docs example_env BookCreateSchema True))
     = Inr [] \<and>
   post example_env EmptyIdSchema None None None None None Securities_access_token None
     = Inr empty_id_doc \<and>
   opts_url_id_field EmptyIdSchema = Some [] \<and>
   parameters empty_id_doc = []"
  using post_path_parameter [where env = example_env and rq = BookByIsbnSchema and rsp = None
      and oid = None and sm = None and errs = None
      and hs = "Some [x_foo]" and sec = Securities_access_token and aps = "Some [zomg]"
      and d = isbn_doc
      and p = "\<lparr> name = Some ''id'', in_loc = Some Locations_path, required = Some True,
                  allowEmptyValue = None \<rparr>"
      and ps = "[]"]
    post_path_parameter [where env = example_env and rq = BookCreateSchema
      and ps = "parameters (initial_docs example_env BookCreateSchema True)"]
    isbn_example empty_id_example
  by (simp add: isbn_doc_def empty_id_doc_def example_env_def BookByIsbnSchema_def BookCreateSchema_def
      EmptyIdSchema_def lower_def lower_char_def initial_docs_def)

end
